theory Spec2Isabelle
  imports Main "HOL-Library.AList"
begin

section \<open>The service worker \<open>sw.js\<close>: data model\<close>

text \<open>
  The worker reacts to three events (\<open>install\<close>, \<open>activate\<close>, \<open>fetch\<close>) and talks to
  three collaborators of the browser: the cache storage (\<open>caches\<close>), the network
  (\<open>fetch\<close>) and the worker's own lifecycle (\<open>skipWaiting\<close>, \<open>clients.claim\<close>).
  Every handler is modelled as a function on an explicit world: the content of the cache
  storage and the trace of the calls made to the collaborators so far. A promise is its
  outcome: \<open>Inr v\<close> when it resolves to \<open>v\<close>, \<open>Inl e\<close> when it rejects with \<open>e\<close>.
  One handler runs from start to end on the world; handlers are not interleaved.
\<close>

datatype error = TypeError string | DOMException string

datatype response_type = Basic | Cors | Default | Error | Opaque | OpaqueRedirect

record response =
  status :: nat
  rtype :: response_type
  headers :: "(string \<times> string) list"
  body :: string

text \<open>
  A URL as \<open>new URL(req.url)\<close> parses it: \<open>origin\<close> (scheme, host and port),
  \<open>pathname\<close>, and the rest (query and fragment). \<open>href\<close> is the string \<open>req.url\<close>.
\<close>

record url =
  origin :: string
  pathname :: string
  rest :: string

definition href :: "url \<Rightarrow> string" where
  "href u = origin u @ pathname u @ rest u"

record request =
  req_method :: string
  req_url :: url
  req_mode :: string

text \<open>
  A cache is a list of entries keyed by the URL string of the request; the cache storage
  is a list of named caches, in the order \<open>caches.keys()\<close> enumerates them.
\<close>

type_synonym cache = "(string \<times> response) list"

type_synonym cache_storage = "(string \<times> cache) list"

datatype effect =
    CachesOpen string
  | CachesKeys
  | CachesDelete string
  | CacheMatch string string
  | CachePut string string
  | CacheAddAll string "string list"
  | NetFetch string
  | SkipWaiting
  | ClientsClaim

record world =
  caches :: cache_storage
  trace :: "effect list"

text \<open>
  What the collaborators answer during one run of a handler: the outcome of the network
  fetch of a request, and whether the cache storage refuses a write (\<open>Some e\<close>: the write
  rejects with \<open>e\<close>, as on an exhausted quota). Opening a cache, looking a key up,
  enumerating and deleting caches, \<open>skipWaiting\<close> and \<open>clients.claim\<close> are taken to
  resolve.
\<close>

record env =
  net :: "request \<Rightarrow> error + response"
  put_error :: "string \<Rightarrow> string \<Rightarrow> response \<Rightarrow> error option"

text \<open>
  The two ambient values of the worker: the path of its registration scope
  (\<open>new URL(self.registration?.scope || "./", self.location).pathname\<close>) and the origin
  of its own location (\<open>self.location.origin\<close>).
\<close>

record config =
  scope_path :: string
  location_origin :: string

section \<open>Strings\<close>

fun starts_with :: "string \<Rightarrow> string \<Rightarrow> bool" where
  "starts_with s [] = True"
| "starts_with [] (p # ps) = False"
| "starts_with (c # cs) (p # ps) = (c = p \<and> starts_with cs ps)"

definition ends_with :: "string \<Rightarrow> string \<Rightarrow> bool" where
  "ends_with s p = starts_with (rev s) (rev p)"

text \<open>Case folding of the \<open>i\<close> flag on the ASCII letters, the only letters of the patterns.\<close>

definition lower :: "char \<Rightarrow> char" where
  "lower c =
     (case map_of (zip ''ABCDEFGHIJKLMNOPQRSTUVWXYZ'' ''abcdefghijklmnopqrstuvwxyz'') c of
        Some l \<Rightarrow> l
      | None \<Rightarrow> c)"

text \<open>
  Each runtime pattern is \<open>/^<literal>\/?/i\<close>: anchored at the start, case-insensitive, a
  literal followed by an optional slash and by anything. \<open>re.test(s)\<close> is therefore
  "\<open>s\<close> starts with the literal, letter case apart": the optional slash always matches.
\<close>

definition re_test :: "string \<Rightarrow> string \<Rightarrow> bool" where
  "re_test lit s = starts_with (map lower s) (map lower lit)"

section \<open>Constants of the worker\<close>

definition VERSION :: string where
  "VERSION = ''v1.0.2''"

definition CACHE_NAME :: string where
  "CACHE_NAME = ''webtools-cache-'' @ VERSION"

definition BASE :: "config \<Rightarrow> string" where
  "BASE cfg = (if ends_with (scope_path cfg) ''/'' then scope_path cfg else scope_path cfg @ ''/'')"

definition PRECACHE_FILES :: "string list" where
  "PRECACHE_FILES = ['''', ''index.html'', ''manifest.webmanifest'', ''gif.worker.js'']"

definition PRECACHE_URLS :: "config \<Rightarrow> string list" where
  "PRECACHE_URLS cfg = map (\<lambda>p. BASE cfg @ p) PRECACHE_FILES"

definition RUNTIME_CDN_PATTERNS :: "string list" where
  "RUNTIME_CDN_PATTERNS =
     [''https://cdn.tailwindcss.com'',
      ''https://fonts.googleapis.com'',
      ''https://fonts.gstatic.com'',
      ''https://img.icons8.com'',
      ''https://cdn.jsdelivr.net'',
      ''https://cdnjs.cloudflare.com'']"

text \<open>\<open>RUNTIME_CDN_PATTERNS.some((re) => re.test(s))\<close>.\<close>

definition matches_cdn :: "string \<Rightarrow> bool" where
  "matches_cdn s = list_ex (\<lambda>re. re_test re s) RUNTIME_CDN_PATTERNS"

section \<open>The collaborators\<close>

text \<open>\<open>caches.open(name)\<close>: the named cache, created empty at the end when absent.\<close>

definition caches_open :: "string \<Rightarrow> world \<Rightarrow> world" where
  "caches_open name w =
     w\<lparr>caches := (if name \<in> set (map fst (caches w)) then caches w
                   else caches w @ [(name, [])]),
       trace := trace w @ [CachesOpen name]\<rparr>"

definition the_cache :: "cache_storage \<Rightarrow> string \<Rightarrow> cache" where
  "the_cache st name = (case map_of st name of Some c \<Rightarrow> c | None \<Rightarrow> [])"

text \<open>\<open>cache.match(key)\<close>: the stored response, or \<open>undefined\<close> (\<open>None\<close>).\<close>

definition cache_match :: "string \<Rightarrow> string \<Rightarrow> world \<Rightarrow> response option \<times> world" where
  "cache_match name key w =
     (map_of (the_cache (caches w) name) key,
      w\<lparr>trace := trace w @ [CacheMatch name key]\<rparr>)"

text \<open>\<open>cache.put(key, response)\<close>: replaces the entry under the key, or rejects.\<close>

definition cache_put ::
  "env \<Rightarrow> string \<Rightarrow> string \<Rightarrow> response \<Rightarrow> world \<Rightarrow> (error + unit) \<times> world" where
  "cache_put e name key r w =
     (let w1 = w\<lparr>trace := trace w @ [CachePut name key]\<rparr> in
      case put_error e name key r of
        Some err \<Rightarrow> (Inl err, w1)
      | None \<Rightarrow>
          (Inr (),
           w1\<lparr>caches :=
                 AList.update name (AList.update key r (the_cache (caches w) name)) (caches w)\<rparr>))"

text \<open>\<open>fetch(request)\<close>: the network's answer.\<close>

definition fetch :: "env \<Rightarrow> request \<Rightarrow> world \<Rightarrow> (error + response) \<times> world" where
  "fetch e req w = (net e req, w\<lparr>trace := trace w @ [NetFetch (href (req_url req))]\<rparr>)"

definition caches_keys :: "world \<Rightarrow> string list \<times> world" where
  "caches_keys w = (map fst (caches w), w\<lparr>trace := trace w @ [CachesKeys]\<rparr>)"

text \<open>\<open>caches.delete(name)\<close>: resolves to whether a cache of that name was there.\<close>

definition caches_delete :: "string \<Rightarrow> world \<Rightarrow> bool \<times> world" where
  "caches_delete name w =
     (name \<in> set (map fst (caches w)),
      w\<lparr>caches := AList.delete name (caches w), trace := trace w @ [CachesDelete name]\<rparr>)"

definition skipWaiting :: "world \<Rightarrow> world" where
  "skipWaiting w = w\<lparr>trace := trace w @ [SkipWaiting]\<rparr>"

definition clients_claim :: "world \<Rightarrow> world" where
  "clients_claim w = w\<lparr>trace := trace w @ [ClientsClaim]\<rparr>"

subsection \<open>\<open>cache.addAll\<close>\<close>

text \<open>
  \<open>cache.addAll(urls)\<close> of the browser: a GET request is made of every URL string
  (resolved against the worker's location; the strings here are absolute paths), all are
  fetched, and the call rejects with a \<open>TypeError\<close> when a fetch fails or answers with a
  status outside 200..299 or with 206. Then all responses are written as one batch: when
  a write is refused nothing of the batch stays in the cache.
\<close>

definition request_of :: "config \<Rightarrow> string \<Rightarrow> request" where
  "request_of cfg p =
     \<lparr>req_method = ''GET'',
      req_url = \<lparr>origin = location_origin cfg, pathname = p, rest = []\<rparr>,
      req_mode = ''cors''\<rparr>"

definition ok_status :: "response \<Rightarrow> bool" where
  "ok_status r = (200 \<le> status r \<and> status r \<le> 299 \<and> status r \<noteq> 206)"

fun collect :: "(error + 'a) list \<Rightarrow> error + 'a list" where
  "collect [] = Inr []"
| "collect (x # xs) =
     (case x of
        Inl err \<Rightarrow> Inl err
      | Inr v \<Rightarrow> (case collect xs of Inl err \<Rightarrow> Inl err | Inr vs \<Rightarrow> Inr (v # vs)))"

definition addAll_fetch :: "env \<Rightarrow> request \<Rightarrow> error + (string \<times> response)" where
  "addAll_fetch e q =
     (case net e q of
        Inl err \<Rightarrow> Inl (TypeError ''Failed to fetch'')
      | Inr r \<Rightarrow>
          if ok_status r then Inr (href (req_url q), r)
          else Inl (TypeError ''Request failed''))"

definition addAll_write :: "env \<Rightarrow> string \<Rightarrow> string \<times> response \<Rightarrow> error + (string \<times> response)" where
  "addAll_write e name kr =
     (case put_error e name (fst kr) (snd kr) of
        Some err \<Rightarrow> Inl err
      | None \<Rightarrow> Inr kr)"

definition cache_addAll ::
  "config \<Rightarrow> env \<Rightarrow> string \<Rightarrow> string list \<Rightarrow> world \<Rightarrow> (error + unit) \<times> world" where
  "cache_addAll cfg e name urls w =
     (let reqs = map (request_of cfg) urls;
          w1 = w\<lparr>trace := trace w @ CacheAddAll name urls
                              # map (\<lambda>q. NetFetch (href (req_url q))) reqs\<rparr>
      in case collect (map (addAll_fetch e) reqs) of
           Inl err \<Rightarrow> (Inl err, w1)
         | Inr fetched \<Rightarrow>
             (case collect (map (addAll_write e name) fetched) of
                Inl err \<Rightarrow> (Inl err, w1)
              | Inr entries \<Rightarrow>
                  (Inr (),
                   w1\<lparr>caches :=
                         AList.update name
                           (fold (\<lambda>kr c. AList.update (fst kr) (snd kr) c) entries
                              (the_cache (caches w) name))
                           (caches w)\<rparr>)))"

section \<open>\<open>cacheFirst\<close>\<close>

text \<open>
  \<open>cacheFirst(event, cacheName = CACHE_NAME)\<close>. The key of \<open>event.request\<close> in the cache
  is its URL string. The inner \<open>try { await cache.put(...) } catch (_) {}\<close> drops the
  outcome of the write; the outer \<open>catch (err)\<close> sees the failure of the fetch.
\<close>

definition cacheFirst :: "env \<Rightarrow> request \<Rightarrow> string \<Rightarrow> world \<Rightarrow> (error + response) \<times> world" where
  "cacheFirst e req cacheName w =
     (let w1 = caches_open cacheName w;
          (cached, w2) = cache_match cacheName (href (req_url req)) w1
      in case cached of
           Some c \<Rightarrow> (Inr c, w2)
         | None \<Rightarrow>
             (case fetch e req w2 of
                (Inr response, w3) \<Rightarrow>
                  if status response = 200 \<or> rtype response = Opaque
                  then (Inr response,
                        snd (cache_put e cacheName (href (req_url req)) response w3))
                  else (Inr response, w3)
              | (Inl err, w3) \<Rightarrow>
                  (case cached of
                     Some c \<Rightarrow> (Inr c, w3)
                   | None \<Rightarrow> (Inl err, w3))))"

section \<open>The \<open>install\<close> and \<open>activate\<close> listeners\<close>

text \<open>
  \<open>caches.open(CACHE_NAME).then(cache => cache.addAll(PRECACHE_URLS)).then(() =>
  self.skipWaiting())\<close>: the result is the promise handed to \<open>event.waitUntil\<close>; a
  rejection of \<open>addAll\<close> skips the last \<open>then\<close>.
\<close>

definition on_install :: "config \<Rightarrow> env \<Rightarrow> world \<Rightarrow> (error + unit) \<times> world" where
  "on_install cfg e w =
     (let w1 = caches_open CACHE_NAME w in
      case cache_addAll cfg e CACHE_NAME (PRECACHE_URLS cfg) w1 of
        (Inl err, w2) \<Rightarrow> (Inl err, w2)
      | (Inr u, w2) \<Rightarrow> (Inr (), skipWaiting w2))"

text \<open>
  The filter of the activate listener:
  \<open>key.startsWith("webtools-cache-") && key !== CACHE_NAME\<close>.
\<close>

definition app_cache_name :: "string \<Rightarrow> bool" where
  "app_cache_name key = starts_with key ''webtools-cache-''"

definition stale :: "string \<Rightarrow> bool" where
  "stale key = (app_cache_name key \<and> key \<noteq> CACHE_NAME)"

definition on_activate :: "world \<Rightarrow> world" where
  "on_activate w =
     (let (keys, w1) = caches_keys w;
          w2 = fold (\<lambda>key v. snd (caches_delete key v)) (filter stale keys) w1
      in clients_claim w2)"

section \<open>The \<open>fetch\<close> listener\<close>

text \<open>The body of the offline page: the UTF-8 encoding of the source's string literal.\<close>

definition OFFLINE_BODY :: string where
  "OFFLINE_BODY =
     ''<h1>'' @
     [CHR 0xE7, CHR 0xA6, CHR 0xBB, CHR 0xE7, CHR 0xBA, CHR 0xBF,
      CHR 0xE6, CHR 0xA8, CHR 0xA1, CHR 0xE5, CHR 0xBC, CHR 0x8F] @
     ''</h1><p>'' @
     [CHR 0xE5, CHR 0xBD, CHR 0x93, CHR 0xE5, CHR 0x89, CHR 0x8D,
      CHR 0xE6, CHR 0x97, CHR 0xA0, CHR 0xE6, CHR 0xB3, CHR 0x95,
      CHR 0xE8, CHR 0xBF, CHR 0x9E, CHR 0xE6, CHR 0x8E, CHR 0xA5,
      CHR 0xE7, CHR 0xBD, CHR 0x91, CHR 0xE7, CHR 0xBB, CHR 0x9C,
      CHR 0xEF, CHR 0xBC, CHR 0x8C, CHR 0xE4, CHR 0xB8, CHR 0x94,
      CHR 0xE5, CHR 0xB0, CHR 0x9A, CHR 0xE6, CHR 0x9C, CHR 0xAA,
      CHR 0xE7, CHR 0xBC, CHR 0x93, CHR 0xE5, CHR 0xAD, CHR 0x98,
      CHR 0xE5, CHR 0xBA, CHR 0x94, CHR 0xE7, CHR 0x94, CHR 0xA8,
      CHR 0xE5, CHR 0xA3, CHR 0xB3, CHR 0xE3, CHR 0x80, CHR 0x82] @
     ''</p>''"

definition offline_response :: response where
  "offline_response =
     \<lparr>status = 200, rtype = Default,
      headers = [(''Content-Type'', ''text/html; charset=utf-8'')],
      body = OFFLINE_BODY\<rparr>"

text \<open>
  The key \<open>BASE + "index.html"\<close> is a string: the cache resolves it against the worker's
  location, and \<open>BASE\<close> is an absolute path.
\<close>

definition INDEX_KEY :: "config \<Rightarrow> string" where
  "INDEX_KEY cfg = location_origin cfg @ BASE cfg @ ''index.html''"

text \<open>The asynchronous function handed to \<open>respondWith\<close> for a navigation.\<close>

definition navigation :: "config \<Rightarrow> env \<Rightarrow> request \<Rightarrow> world \<Rightarrow> (error + response) \<times> world" where
  "navigation cfg e req w =
     (case fetch e req w of
        (Inr fresh, w1) \<Rightarrow>
          (let w2 = caches_open CACHE_NAME w1;
               w3 = snd (cache_put e CACHE_NAME (INDEX_KEY cfg) fresh w2)
           in (Inr fresh, w3))
      | (Inl err, w1) \<Rightarrow>
          (let w2 = caches_open CACHE_NAME w1;
               (cached, w3) = cache_match CACHE_NAME (INDEX_KEY cfg) w2
           in case cached of
                Some c \<Rightarrow> (Inr c, w3)
              | None \<Rightarrow> (Inr offline_response, w3)))"

datatype handled = PassThrough | RespondWith "error + response"

definition on_fetch :: "config \<Rightarrow> env \<Rightarrow> request \<Rightarrow> world \<Rightarrow> handled \<times> world" where
  "on_fetch cfg e req w =
     (if req_method req \<noteq> ''GET'' then (PassThrough, w)
      else if req_mode req = ''navigate'' then
        (let (r, w') = navigation cfg e req w in (RespondWith r, w'))
      else if origin (req_url req) = location_origin cfg
              \<and> starts_with (pathname (req_url req)) (BASE cfg) then
        (let (r, w') = cacheFirst e req CACHE_NAME w in (RespondWith r, w'))
      else if matches_cdn (href (req_url req)) then
        (let (r, w') = cacheFirst e req CACHE_NAME w in (RespondWith r, w'))
      else (PassThrough, w))"

section \<open>Observations\<close>

text \<open>What a lookup of the key in the named cache of the world finds.\<close>

definition cached_in :: "world \<Rightarrow> string \<Rightarrow> string \<Rightarrow> response option" where
  "cached_in w name key = fst (cache_match name key w)"

text \<open>
  The collaborators let the URL be precached: the network answers the GET request of
  the URL with a status \<open>addAll\<close> accepts, and the storage takes the write.
\<close>

definition fetched_and_stored :: "config \<Rightarrow> env \<Rightarrow> string \<Rightarrow> string \<Rightarrow> bool" where
  "fetched_and_stored cfg e name u =
     (case net e (request_of cfg u) of
        Inl err \<Rightarrow> False
      | Inr r \<Rightarrow> ok_status r \<and> put_error e name (location_origin cfg @ u) r = None)"

text \<open>
  The entries that \<open>addAll\<close> writes for a list of URLs, read where every fetch resolves.
\<close>

definition addAll_entries :: "config \<Rightarrow> env \<Rightarrow> string list \<Rightarrow> (string \<times> response) list" where
  "addAll_entries cfg e urls =
     map (\<lambda>u. (location_origin cfg @ u, projr (net e (request_of cfg u)))) urls"

section \<open>Example inputs\<close>

definition cfg_pages :: config where
  "cfg_pages =
     \<lparr>scope_path = ''/WebTools/'', location_origin = ''https://oedosoldier.github.io''\<rparr>"

definition w_empty :: world where
  "w_empty = \<lparr>caches = [], trace = []\<rparr>"

definition page_200 :: response where
  "page_200 =
     \<lparr>status = 200, rtype = Basic,
      headers = [(''Content-Type'', ''text/html'')], body = ''<html></html>''\<rparr>"

definition asset_200 :: response where
  "asset_200 =
     \<lparr>status = 200, rtype = Cors,
      headers = [(''Content-Type'', ''font/woff2'')], body = ''wOF2''\<rparr>"

definition not_found :: response where
  "not_found = \<lparr>status = 404, rtype = Cors, headers = [], body = ''Not Found''\<rparr>"


definition env_offline :: env where
  "env_offline =
     \<lparr>net = (\<lambda>q. Inl (TypeError ''Failed to fetch'')), put_error = (\<lambda>n k r. None)\<rparr>"

definition env_serving :: "response \<Rightarrow> env" where
  "env_serving r = \<lparr>net = (\<lambda>q. Inr r), put_error = (\<lambda>n k r. None)\<rparr>"

definition env_full :: "response \<Rightarrow> env" where
  "env_full r =
     \<lparr>net = (\<lambda>q. Inr r),
      put_error = (\<lambda>n k r. Some (DOMException ''QuotaExceededError''))\<rparr>"

definition nav_req :: request where
  "nav_req =
     \<lparr>req_method = ''GET'',
      req_url = \<lparr>origin = ''https://oedosoldier.github.io'', pathname = ''/WebTools/'',
                 rest = []\<rparr>,
      req_mode = ''navigate''\<rparr>"

definition post_req :: request where
  "post_req =
     \<lparr>req_method = ''POST'',
      req_url = \<lparr>origin = ''https://cdn.jsdelivr.net'', pathname = ''/upload'', rest = []\<rparr>,
      req_mode = ''cors''\<rparr>"

definition cdn_req :: request where
  "cdn_req =
     \<lparr>req_method = ''GET'',
      req_url = \<lparr>origin = ''https://fonts.gstatic.com'', pathname = ''/s/inter/v13/inter.woff2'',
                 rest = []\<rparr>,
      req_mode = ''cors''\<rparr>"

definition w_cdn_cached :: world where
  "w_cdn_cached =
     \<lparr>caches = [(CACHE_NAME, [(href (req_url cdn_req), asset_200)])], trace = []\<rparr>"

definition w_shell_cached :: world where
  "w_shell_cached =
     \<lparr>caches = [(''webtools-cache-v1.0.2'',
                 [(''https://oedosoldier.github.io/WebTools/index.html'', page_200)])],
      trace = []\<rparr>"

definition w_stale_only :: world where
  "w_stale_only = \<lparr>caches = [(''webtools-cache-v1.0.1'', [])], trace = []\<rparr>"

definition w_versions :: world where
  "w_versions =
     \<lparr>caches = [(''webtools-cache-v1.0.1'', []), (''other-app-v3'', []),
                (CACHE_NAME, []), (''webtools-cache-v0.9'', [])],
      trace = []\<rparr>"

section \<open>The cache storage\<close>

lemma the_cache_open: "the_cache (caches (caches_open n w)) m = the_cache (caches w) m"
  by (auto simp: caches_open_def the_cache_def map_add_def map_of_eq_None_iff [symmetric]
      split: option.splits)

lemma the_cache_update:
  "the_cache (AList.update n c st) m = (if m = n then c else the_cache st m)"
  by (simp add: the_cache_def update_conv')

lemma trace_open: "trace (caches_open n w) = trace w @ [CachesOpen n]"
  by (simp add: caches_open_def)

lemma trace_put: "trace (snd (cache_put e n k r w)) = trace w @ [CachePut n k]"
  by (simp add: cache_put_def Let_def split: option.splits)

lemma cached_in_open: "cached_in (caches_open n w) m k = cached_in w m k"
  by (simp add: cached_in_def cache_match_def the_cache_open)

lemma cached_in_trace: "cached_in (w\<lparr>trace := t\<rparr>) m k = cached_in w m k"
  by (simp add: cached_in_def cache_match_def)

lemma caches_open_present:
  "cached_in w n k = Some c \<Longrightarrow> caches (caches_open n w) = caches w"
  by (auto simp: cached_in_def cache_match_def caches_open_def the_cache_def
      split: option.splits dest: map_of_SomeD intro: rev_image_eqI)

lemma cached_in_put:
  "cached_in (snd (cache_put e n k r w)) n k =
     (if put_error e n k r = None then Some r else cached_in w n k)"
  by (auto simp: cached_in_def cache_match_def cache_put_def the_cache_update update_conv'
      split: option.splits)

lemma cached_in_simps:
  "cached_in \<lparr>caches = (n, (k, r) # es) # cs, trace = t\<rparr> n k = Some r"
  "cached_in \<lparr>caches = [], trace = t\<rparr> n k = None"
  by (simp_all add: cached_in_def cache_match_def the_cache_def)

section \<open>The cache-first strategy\<close>

lemma cacheFirst_cached:
  assumes "cached_in w cacheName (href (req_url req)) = Some c"
  shows "cacheFirst e req cacheName w =
           (Inr c, w\<lparr>trace := trace w @ [CachesOpen cacheName,
                                           CacheMatch cacheName (href (req_url req))]\<rparr>)"
proof -
  have "caches (caches_open cacheName w) = caches w"
    using assms by (rule caches_open_present)
  moreover have "map_of (the_cache (caches w) cacheName) (href (req_url req)) = Some c"
    using assms by (simp add: cached_in_def cache_match_def)
  ultimately show ?thesis
    by (simp add: cacheFirst_def cache_match_def Let_def the_cache_open)
       (simp add: caches_open_def)
qed

lemma cacheFirst_miss:
  "cached_in w cacheName (href (req_url req)) = None \<Longrightarrow>
   cacheFirst e req cacheName w =
     (let key = href (req_url req);
          w2 = (caches_open cacheName w)\<lparr>trace := trace w @ [CachesOpen cacheName,
                  CacheMatch cacheName key]\<rparr>
      in case net e req of
           Inr response \<Rightarrow>
             if status response = 200 \<or> rtype response = Opaque
             then (Inr response,
                   snd (cache_put e cacheName key response
                          (w2\<lparr>trace := trace w2 @ [NetFetch key]\<rparr>)))
             else (Inr response, w2\<lparr>trace := trace w2 @ [NetFetch key]\<rparr>)
         | Inl err \<Rightarrow> (Inl err, w2\<lparr>trace := trace w2 @ [NetFetch key]\<rparr>))"
  by (simp add: cacheFirst_def cached_in_def cache_match_def Let_def the_cache_open fetch_def
        trace_open split: sum.splits)

lemma cacheFirst_fetched:
  assumes "cached_in w cacheName (href (req_url req)) = None" and "net e req = Inr r"
  shows "fst (cacheFirst e req cacheName w) = Inr r"
    and "trace (snd (cacheFirst e req cacheName w)) =
           trace w @ [CachesOpen cacheName, CacheMatch cacheName (href (req_url req)),
                      NetFetch (href (req_url req))]
             @ (if status r = 200 \<or> rtype r = Opaque
                then [CachePut cacheName (href (req_url req))] else [])"
    and "cached_in (snd (cacheFirst e req cacheName w)) cacheName (href (req_url req)) =
           (if (status r = 200 \<or> rtype r = Opaque)
               \<and> put_error e cacheName (href (req_url req)) r = None
            then Some r else None)"
  using assms
  by (simp_all add: cacheFirst_miss Let_def trace_put cached_in_put cached_in_open
        cached_in_trace)

text \<open>
  C6. When the lookup of the request in the target cache finds a response, \<open>cacheFirst\<close>
  returns that response; the content of the cache storage is the same as before; the
  only calls it makes are the opening of the cache and the lookup (no network fetch, no
  write); and the whole outcome is the same whatever the network would have answered.
\<close>

theorem cacheFirst_hit:
  assumes "cached_in w cacheName (href (req_url req)) = Some c"
  shows "fst (cacheFirst e req cacheName w) = Inr c
         \<and> caches (snd (cacheFirst e req cacheName w)) = caches w
         \<and> trace (snd (cacheFirst e req cacheName w)) =
             trace w @ [CachesOpen cacheName, CacheMatch cacheName (href (req_url req))]
         \<and> cacheFirst e' req cacheName w = cacheFirst e req cacheName w"
proof -
  have "cacheFirst d req cacheName w =
          (Inr c, w\<lparr>trace := trace w @ [CachesOpen cacheName,
                                          CacheMatch cacheName (href (req_url req))]\<rparr>)" for d
    using assms by (rule cacheFirst_cached)
  then show ?thesis
    by simp
qed

theorem cacheFirst_hit_witness:
  "cached_in w_cdn_cached CACHE_NAME (href (req_url cdn_req)) = Some asset_200
   \<and> fst (cacheFirst env_offline cdn_req CACHE_NAME w_cdn_cached) = Inr asset_200
   \<and> caches (snd (cacheFirst env_offline cdn_req CACHE_NAME w_cdn_cached))
       = caches w_cdn_cached
   \<and> trace (snd (cacheFirst env_offline cdn_req CACHE_NAME w_cdn_cached)) =
       [CachesOpen CACHE_NAME, CacheMatch CACHE_NAME (href (req_url cdn_req))]"
  using cacheFirst_hit [of w_cdn_cached CACHE_NAME cdn_req asset_200 env_offline env_offline]
  by (simp add: w_cdn_cached_def cached_in_simps)

text \<open>
  C7. On a miss followed by a network fetch that resolves, \<open>cacheFirst\<close> returns the
  network's response in every case. It calls \<open>cache.put\<close> exactly when the response has
  status 200 or is opaque, and after the call the cache holds the response under the
  request's key exactly when that write was attempted and the storage accepted it: a
  refused write changes neither the result nor the cache.
\<close>

theorem cacheFirst_miss_stores_iff_cacheable:
  assumes "cached_in w cacheName (href (req_url req)) = None" and "net e req = Inr r"
  shows "fst (cacheFirst e req cacheName w) = Inr r
         \<and> trace (snd (cacheFirst e req cacheName w)) =
             trace w @ [CachesOpen cacheName, CacheMatch cacheName (href (req_url req)),
                        NetFetch (href (req_url req))]
               @ (if status r = 200 \<or> rtype r = Opaque
                  then [CachePut cacheName (href (req_url req))] else [])
         \<and> cached_in (snd (cacheFirst e req cacheName w)) cacheName (href (req_url req)) =
             (if (status r = 200 \<or> rtype r = Opaque)
                 \<and> put_error e cacheName (href (req_url req)) r = None
              then Some r else None)"
  using cacheFirst_fetched [OF assms] by simp

theorem cacheFirst_miss_stores_iff_cacheable_witness:
  "cached_in w_empty CACHE_NAME (href (req_url cdn_req)) = None
   \<and> net (env_serving asset_200) cdn_req = Inr asset_200
   \<and> net (env_full asset_200) cdn_req = Inr asset_200
   \<and> net (env_serving not_found) cdn_req = Inr not_found
   \<and> fst (cacheFirst (env_serving asset_200) cdn_req CACHE_NAME w_empty) = Inr asset_200
   \<and> cached_in (snd (cacheFirst (env_serving asset_200) cdn_req CACHE_NAME w_empty))
        CACHE_NAME (href (req_url cdn_req)) = Some asset_200
   \<and> fst (cacheFirst (env_full asset_200) cdn_req CACHE_NAME w_empty) = Inr asset_200
   \<and> cached_in (snd (cacheFirst (env_full asset_200) cdn_req CACHE_NAME w_empty))
        CACHE_NAME (href (req_url cdn_req)) = None
   \<and> fst (cacheFirst (env_serving not_found) cdn_req CACHE_NAME w_empty) = Inr not_found
   \<and> cached_in (snd (cacheFirst (env_serving not_found) cdn_req CACHE_NAME w_empty))
        CACHE_NAME (href (req_url cdn_req)) = None"
  using cacheFirst_miss_stores_iff_cacheable
          [of w_empty CACHE_NAME cdn_req "env_serving asset_200" asset_200]
    cacheFirst_miss_stores_iff_cacheable
          [of w_empty CACHE_NAME cdn_req "env_full asset_200" asset_200]
    cacheFirst_miss_stores_iff_cacheable
          [of w_empty CACHE_NAME cdn_req "env_serving not_found" not_found]
  by (simp add: w_empty_def cached_in_simps env_serving_def env_full_def asset_200_def
        not_found_def)

text \<open>
  C8. When the network fetch of the request rejects, \<open>cacheFirst\<close> returns the cached
  response if the lookup found one, and otherwise rejects with the error of the fetch:
  with no cached entry a network failure reaches the caller as a failed request.
\<close>

theorem cacheFirst_network_failure:
  assumes "net e req = Inl err"
  shows "fst (cacheFirst e req cacheName w) =
           (case cached_in w cacheName (href (req_url req)) of
              Some c \<Rightarrow> Inr c
            | None \<Rightarrow> Inl err)"
  using assms
  by (cases "cached_in w cacheName (href (req_url req))")
     (simp_all add: cacheFirst_miss cacheFirst_cached Let_def)

theorem cacheFirst_network_failure_witness:
  "net env_offline cdn_req = Inl (TypeError ''Failed to fetch'')
   \<and> fst (cacheFirst env_offline cdn_req CACHE_NAME w_empty)
       = Inl (TypeError ''Failed to fetch'')
   \<and> fst (cacheFirst env_offline cdn_req CACHE_NAME w_cdn_cached) = Inr asset_200"
  using cacheFirst_network_failure
          [of env_offline cdn_req "TypeError ''Failed to fetch''" CACHE_NAME w_empty]
    cacheFirst_network_failure
          [of env_offline cdn_req "TypeError ''Failed to fetch''" CACHE_NAME w_cdn_cached]
  by (simp add: env_offline_def w_empty_def w_cdn_cached_def cached_in_simps)

section \<open>The fetch listener\<close>

lemma navigation_fresh:
  "net e req = Inr fresh \<Longrightarrow>
   navigation cfg e req w =
     (Inr fresh,
      snd (cache_put e CACHE_NAME (INDEX_KEY cfg) fresh
             (caches_open CACHE_NAME
                (w\<lparr>trace := trace w @ [NetFetch (href (req_url req))]\<rparr>))))"
  by (simp add: navigation_def fetch_def Let_def)

lemma navigation_failed:
  "net e req = Inl err \<Longrightarrow>
   fst (navigation cfg e req w) =
     Inr (case cached_in w CACHE_NAME (INDEX_KEY cfg) of
            Some c \<Rightarrow> c
          | None \<Rightarrow> offline_response)"
  by (simp add: navigation_def fetch_def Let_def cached_in_def cache_match_def the_cache_open
      split: option.splits)

lemma navigation_resolves: "\<exists>r. fst (navigation cfg e req w) = Inr r"
  by (cases "net e req") (simp_all add: navigation_failed navigation_fresh)

lemma on_fetch_navigate:
  "req_method req = ''GET'' \<Longrightarrow> req_mode req = ''navigate'' \<Longrightarrow>
   on_fetch cfg e req w =
     (RespondWith (fst (navigation cfg e req w)), snd (navigation cfg e req w))"
  by (simp add: on_fetch_def split_beta)

lemma on_fetch_cdn:
  assumes "req_method req = ''GET''" and "req_mode req \<noteq> ''navigate''"
    and "matches_cdn (href (req_url req))"
  shows "on_fetch cfg e req w =
           (RespondWith (fst (cacheFirst e req CACHE_NAME w)),
            snd (cacheFirst e req CACHE_NAME w))"
  using assms by (simp add: on_fetch_def split_beta)

text \<open>
  C3. For a request whose method is not GET the fetch listener does not respond, whatever
  the URL, the origin and the mode of the request are: it passes the request through and
  leaves the world as it was, so it makes no call to the cache storage or the network
  and writes nothing.
\<close>

theorem non_get_pass_through:
  "req_method req \<noteq> ''GET'' \<Longrightarrow> on_fetch cfg e req w = (PassThrough, w)"
  by (simp add: on_fetch_def)

theorem non_get_pass_through_witness:
  "req_method post_req \<noteq> ''GET''
   \<and> on_fetch cfg_pages (env_serving page_200) post_req w_cdn_cached
       = (PassThrough, w_cdn_cached)"
  using non_get_pass_through [of post_req cfg_pages "env_serving page_200" w_cdn_cached]
  by (simp add: post_req_def)

lemma offline_page:
  "offline_response =
               \<lparr>status = 200, rtype = Default,
                headers = [(''Content-Type'', ''text/html; charset=utf-8'')],
                body =
               ''<h1>'' @
               [CHR 0xE7, CHR 0xA6, CHR 0xBB, CHR 0xE7, CHR 0xBA, CHR 0xBF,
                CHR 0xE6, CHR 0xA8, CHR 0xA1, CHR 0xE5, CHR 0xBC, CHR 0x8F] @
               ''</h1><p>'' @
               [CHR 0xE5, CHR 0xBD, CHR 0x93, CHR 0xE5, CHR 0x89, CHR 0x8D,
                CHR 0xE6, CHR 0x97, CHR 0xA0, CHR 0xE6, CHR 0xB3, CHR 0x95,
                CHR 0xE8, CHR 0xBF, CHR 0x9E, CHR 0xE6, CHR 0x8E, CHR 0xA5,
                CHR 0xE7, CHR 0xBD, CHR 0x91, CHR 0xE7, CHR 0xBB, CHR 0x9C,
                CHR 0xEF, CHR 0xBC, CHR 0x8C, CHR 0xE4, CHR 0xB8, CHR 0x94,
                CHR 0xE5, CHR 0xB0, CHR 0x9A, CHR 0xE6, CHR 0x9C, CHR 0xAA,
                CHR 0xE7, CHR 0xBC, CHR 0x93, CHR 0xE5, CHR 0xAD, CHR 0x98,
                CHR 0xE5, CHR 0xBA, CHR 0x94, CHR 0xE7, CHR 0x94, CHR 0xA8,
                CHR 0xE5, CHR 0xA3, CHR 0xB3, CHR 0xE3, CHR 0x80, CHR 0x82] @
               ''</p>''\<rparr>"
  by (simp add: offline_response_def OFFLINE_BODY_def)

lemma CACHE_NAME_pages: "CACHE_NAME = ''webtools-cache-v1.0.2''"
  by (simp add: CACHE_NAME_def VERSION_def)

lemma INDEX_KEY_pages:
  "location_origin cfg_pages @ BASE cfg_pages @ ''index.html''
     = ''https://oedosoldier.github.io/WebTools/index.html''"
  by (simp add: BASE_def ends_with_def cfg_pages_def)

lemma shell_cached_pages:
  "cached_in w_shell_cached ''webtools-cache-v1.0.2''
     ''https://oedosoldier.github.io/WebTools/index.html'' = Some page_200"
  by (simp add: w_shell_cached_def cached_in_simps)

text \<open>
  C4. For a GET navigation whose network fetch rejects, the listener responds with the
  entry cached in the current cache under the index-page key (the worker's origin, then
  \<open>BASE\<close>, then \<open>index.html\<close>) when there is one, and otherwise with the synthesized
  offline page, written out below: status 200, content type \<open>text/html; charset=utf-8\<close>,
  and as body the offline notice of the source, a heading and a paragraph, in UTF-8.
  Whatever the network does, the response handed to \<open>respondWith\<close> for a navigation
  resolves; it never rejects.
\<close>

theorem navigation_offline_fallback:
  assumes "req_method req = ''GET''" and "req_mode req = ''navigate''"
    and "net e req = Inl err"
  shows "fst (on_fetch cfg e req w) =
           RespondWith
             (Inr (case cached_in w CACHE_NAME
                          (location_origin cfg @ BASE cfg @ ''index.html'') of
                     Some c \<Rightarrow> c
                   | None \<Rightarrow>
               \<lparr>status = 200, rtype = Default,
                headers = [(''Content-Type'', ''text/html; charset=utf-8'')],
                body =
               ''<h1>'' @
               [CHR 0xE7, CHR 0xA6, CHR 0xBB, CHR 0xE7, CHR 0xBA, CHR 0xBF,
                CHR 0xE6, CHR 0xA8, CHR 0xA1, CHR 0xE5, CHR 0xBC, CHR 0x8F] @
               ''</h1><p>'' @
               [CHR 0xE5, CHR 0xBD, CHR 0x93, CHR 0xE5, CHR 0x89, CHR 0x8D,
                CHR 0xE6, CHR 0x97, CHR 0xA0, CHR 0xE6, CHR 0xB3, CHR 0x95,
                CHR 0xE8, CHR 0xBF, CHR 0x9E, CHR 0xE6, CHR 0x8E, CHR 0xA5,
                CHR 0xE7, CHR 0xBD, CHR 0x91, CHR 0xE7, CHR 0xBB, CHR 0x9C,
                CHR 0xEF, CHR 0xBC, CHR 0x8C, CHR 0xE4, CHR 0xB8, CHR 0x94,
                CHR 0xE5, CHR 0xB0, CHR 0x9A, CHR 0xE6, CHR 0x9C, CHR 0xAA,
                CHR 0xE7, CHR 0xBC, CHR 0x93, CHR 0xE5, CHR 0xAD, CHR 0x98,
                CHR 0xE5, CHR 0xBA, CHR 0x94, CHR 0xE7, CHR 0x94, CHR 0xA8,
                CHR 0xE5, CHR 0xA3, CHR 0xB3, CHR 0xE3, CHR 0x80, CHR 0x82] @
               ''</p>''\<rparr>))
         \<and> (\<forall>e'. \<exists>r. fst (on_fetch cfg e' req w) = RespondWith (Inr r))"
proof -
  have first: "fst (on_fetch cfg e req w) =
          RespondWith (Inr (case cached_in w CACHE_NAME (INDEX_KEY cfg) of
                              Some c \<Rightarrow> c
                            | None \<Rightarrow> offline_response))"
    using assms by (simp add: on_fetch_navigate navigation_failed)
  have always: "\<forall>e'. \<exists>r. fst (on_fetch cfg e' req w) = RespondWith (Inr r)"
    using assms(1,2) by (simp add: on_fetch_navigate navigation_resolves)
  show ?thesis
    by (rule conjI [OF first [unfolded INDEX_KEY_def offline_page] always])
qed

theorem navigation_offline_fallback_witness:
  "req_method nav_req = ''GET'' \<and> req_mode nav_req = ''navigate''
   \<and> net env_offline nav_req = Inl (TypeError ''Failed to fetch'')
   \<and> cached_in w_shell_cached ''webtools-cache-v1.0.2''
        ''https://oedosoldier.github.io/WebTools/index.html'' = Some page_200
   \<and> fst (on_fetch cfg_pages env_offline nav_req w_shell_cached) = RespondWith (Inr page_200)
   \<and> caches w_empty = []
   \<and> fst (on_fetch cfg_pages env_offline nav_req w_empty) =
       RespondWith
         (Inr
               \<lparr>status = 200, rtype = Default,
                headers = [(''Content-Type'', ''text/html; charset=utf-8'')],
                body =
               ''<h1>'' @
               [CHR 0xE7, CHR 0xA6, CHR 0xBB, CHR 0xE7, CHR 0xBA, CHR 0xBF,
                CHR 0xE6, CHR 0xA8, CHR 0xA1, CHR 0xE5, CHR 0xBC, CHR 0x8F] @
               ''</h1><p>'' @
               [CHR 0xE5, CHR 0xBD, CHR 0x93, CHR 0xE5, CHR 0x89, CHR 0x8D,
                CHR 0xE6, CHR 0x97, CHR 0xA0, CHR 0xE6, CHR 0xB3, CHR 0x95,
                CHR 0xE8, CHR 0xBF, CHR 0x9E, CHR 0xE6, CHR 0x8E, CHR 0xA5,
                CHR 0xE7, CHR 0xBD, CHR 0x91, CHR 0xE7, CHR 0xBB, CHR 0x9C,
                CHR 0xEF, CHR 0xBC, CHR 0x8C, CHR 0xE4, CHR 0xB8, CHR 0x94,
                CHR 0xE5, CHR 0xB0, CHR 0x9A, CHR 0xE6, CHR 0x9C, CHR 0xAA,
                CHR 0xE7, CHR 0xBC, CHR 0x93, CHR 0xE5, CHR 0xAD, CHR 0x98,
                CHR 0xE5, CHR 0xBA, CHR 0x94, CHR 0xE7, CHR 0x94, CHR 0xA8,
                CHR 0xE5, CHR 0xA3, CHR 0xB3, CHR 0xE3, CHR 0x80, CHR 0x82] @
               ''</p>''\<rparr>)"
proof -
  have h: "req_method nav_req = ''GET''" "req_mode nav_req = ''navigate''"
    "net env_offline nav_req = Inl (TypeError ''Failed to fetch'')"
    by (simp_all add: nav_req_def env_offline_def)
  have miss: "cached_in w_empty ''webtools-cache-v1.0.2''
      ''https://oedosoldier.github.io/WebTools/index.html'' = None"
    by (simp add: w_empty_def cached_in_simps)
  have empty: "caches w_empty = []"
    by (simp add: w_empty_def)
  have 1: "fst (on_fetch cfg_pages env_offline nav_req w_shell_cached)
      = RespondWith (Inr page_200)"
    using conjunct1 [OF navigation_offline_fallback [OF h, of cfg_pages w_shell_cached]]
    by (simp only: INDEX_KEY_pages CACHE_NAME_pages shell_cached_pages option.case)
  have 2: "fst (on_fetch cfg_pages env_offline nav_req w_empty) =
       RespondWith
         (Inr
               \<lparr>status = 200, rtype = Default,
                headers = [(''Content-Type'', ''text/html; charset=utf-8'')],
                body =
               ''<h1>'' @
               [CHR 0xE7, CHR 0xA6, CHR 0xBB, CHR 0xE7, CHR 0xBA, CHR 0xBF,
                CHR 0xE6, CHR 0xA8, CHR 0xA1, CHR 0xE5, CHR 0xBC, CHR 0x8F] @
               ''</h1><p>'' @
               [CHR 0xE5, CHR 0xBD, CHR 0x93, CHR 0xE5, CHR 0x89, CHR 0x8D,
                CHR 0xE6, CHR 0x97, CHR 0xA0, CHR 0xE6, CHR 0xB3, CHR 0x95,
                CHR 0xE8, CHR 0xBF, CHR 0x9E, CHR 0xE6, CHR 0x8E, CHR 0xA5,
                CHR 0xE7, CHR 0xBD, CHR 0x91, CHR 0xE7, CHR 0xBB, CHR 0x9C,
                CHR 0xEF, CHR 0xBC, CHR 0x8C, CHR 0xE4, CHR 0xB8, CHR 0x94,
                CHR 0xE5, CHR 0xB0, CHR 0x9A, CHR 0xE6, CHR 0x9C, CHR 0xAA,
                CHR 0xE7, CHR 0xBC, CHR 0x93, CHR 0xE5, CHR 0xAD, CHR 0x98,
                CHR 0xE5, CHR 0xBA, CHR 0x94, CHR 0xE7, CHR 0x94, CHR 0xA8,
                CHR 0xE5, CHR 0xA3, CHR 0xB3, CHR 0xE3, CHR 0x80, CHR 0x82] @
               ''</p>''\<rparr>)"
    using conjunct1 [OF navigation_offline_fallback [OF h, of cfg_pages w_empty]]
    by (simp only: INDEX_KEY_pages CACHE_NAME_pages miss option.case)
  from h shell_cached_pages 1 empty 2 show ?thesis
    by (simp only: simp_thms)
qed

text \<open>
  C5. For a GET navigation whose network fetch resolves, the listener responds with the
  network's response itself. The entry of the current cache under the index-page key
  (the worker's origin, then \<open>BASE\<close>, then \<open>index.html\<close>) becomes that response when the
  storage accepts the write; when the write is refused the entry stays what it was and
  the response is returned all the same.
\<close>

theorem navigation_online_updates_shell:
  assumes "req_method req = ''GET''" and "req_mode req = ''navigate''"
    and "net e req = Inr fresh"
  shows "fst (on_fetch cfg e req w) = RespondWith (Inr fresh)
         \<and> cached_in (snd (on_fetch cfg e req w)) CACHE_NAME
               (location_origin cfg @ BASE cfg @ ''index.html'') =
             (if put_error e CACHE_NAME (location_origin cfg @ BASE cfg @ ''index.html'') fresh
                   = None
              then Some fresh
              else cached_in w CACHE_NAME (location_origin cfg @ BASE cfg @ ''index.html''))"
proof -
  have "fst (on_fetch cfg e req w) = RespondWith (Inr fresh)"
    using assms by (simp add: on_fetch_navigate navigation_fresh)
  moreover have "cached_in (snd (on_fetch cfg e req w)) CACHE_NAME (INDEX_KEY cfg) =
             (if put_error e CACHE_NAME (INDEX_KEY cfg) fresh = None then Some fresh
              else cached_in w CACHE_NAME (INDEX_KEY cfg))"
    using assms
    by (simp add: on_fetch_navigate navigation_fresh cached_in_put cached_in_open
          cached_in_trace)
  ultimately show ?thesis
    by (simp only: INDEX_KEY_def simp_thms)
qed

theorem navigation_online_updates_shell_witness:
  "req_method nav_req = ''GET'' \<and> req_mode nav_req = ''navigate''
   \<and> net (env_serving page_200) nav_req = Inr page_200
   \<and> net (env_full page_200) nav_req = Inr page_200
   \<and> caches w_empty = []
   \<and> fst (on_fetch cfg_pages (env_serving page_200) nav_req w_empty)
       = RespondWith (Inr page_200)
   \<and> cached_in (snd (on_fetch cfg_pages (env_serving page_200) nav_req w_empty))
        ''webtools-cache-v1.0.2'' ''https://oedosoldier.github.io/WebTools/index.html''
       = Some page_200
   \<and> fst (on_fetch cfg_pages (env_full page_200) nav_req w_empty)
       = RespondWith (Inr page_200)
   \<and> cached_in (snd (on_fetch cfg_pages (env_full page_200) nav_req w_empty))
        ''webtools-cache-v1.0.2'' ''https://oedosoldier.github.io/WebTools/index.html''
       = None"
proof -
  have h: "req_method nav_req = ''GET''" "req_mode nav_req = ''navigate''"
    by (simp_all add: nav_req_def)
  have served: "net (env_serving page_200) nav_req = Inr page_200"
    and full: "net (env_full page_200) nav_req = Inr page_200"
    by (simp_all add: env_serving_def env_full_def)
  have accepted: "put_error (env_serving page_200) ''webtools-cache-v1.0.2''
      ''https://oedosoldier.github.io/WebTools/index.html'' page_200 = None"
    by (simp add: env_serving_def)
  have refused: "put_error (env_full page_200) ''webtools-cache-v1.0.2''
      ''https://oedosoldier.github.io/WebTools/index.html'' page_200 \<noteq> None"
    by (simp add: env_full_def)
  have miss: "cached_in w_empty ''webtools-cache-v1.0.2''
      ''https://oedosoldier.github.io/WebTools/index.html'' = None"
    by (simp add: w_empty_def cached_in_simps)
  have empty: "caches w_empty = []"
    by (simp add: w_empty_def)
  note on = navigation_online_updates_shell [OF h served, of cfg_pages w_empty,
      unfolded INDEX_KEY_pages CACHE_NAME_pages]
  note off = navigation_online_updates_shell [OF h full, of cfg_pages w_empty,
      unfolded INDEX_KEY_pages CACHE_NAME_pages]
  have 1: "cached_in (snd (on_fetch cfg_pages (env_serving page_200) nav_req w_empty))
        ''webtools-cache-v1.0.2'' ''https://oedosoldier.github.io/WebTools/index.html''
       = Some page_200"
    using conjunct2 [OF on] accepted by simp
  have 2: "cached_in (snd (on_fetch cfg_pages (env_full page_200) nav_req w_empty))
        ''webtools-cache-v1.0.2'' ''https://oedosoldier.github.io/WebTools/index.html''
       = None"
    using conjunct2 [OF off] refused miss by simp
  from h served full empty conjunct1 [OF on] 1 conjunct1 [OF off] 2 show ?thesis
    by (simp only: simp_thms)
qed




section \<open>The install listener\<close>

lemma collect_all_Inr:
  "(\<forall>x\<in>set xs. \<exists>v. f x = Inr v) \<Longrightarrow> collect (map f xs) = Inr (map (\<lambda>x. projr (f x)) xs)"
  by (induction xs) auto

lemma collect_Inr_D:
  "collect (map f xs) = Inr vs \<Longrightarrow>
   vs = map (\<lambda>x. projr (f x)) xs \<and> (\<forall>x\<in>set xs. \<exists>v. f x = Inr v)"
  by (induction xs arbitrary: vs) (auto split: sum.splits)

lemma href_request_of: "href (req_url (request_of cfg u)) = location_origin cfg @ u"
  by (simp add: request_of_def href_def)

lemma addAll_fetch_ok:
  "fetched_and_stored cfg e name u \<Longrightarrow>
   addAll_fetch e (request_of cfg u)
     = Inr (location_origin cfg @ u, projr (net e (request_of cfg u)))"
  by (auto simp: fetched_and_stored_def addAll_fetch_def href_request_of split: sum.splits)

lemma addAll_write_ok:
  "fetched_and_stored cfg e name u \<Longrightarrow>
   addAll_write e name (location_origin cfg @ u, projr (net e (request_of cfg u)))
     = Inr (location_origin cfg @ u, projr (net e (request_of cfg u)))"
  by (auto simp: fetched_and_stored_def addAll_write_def split: sum.splits)

lemma collect_fetch_ok:
  assumes "\<forall>u\<in>set urls. fetched_and_stored cfg e name u"
  shows "collect (map (addAll_fetch e) (map (request_of cfg) urls))
           = Inr (addAll_entries cfg e urls)"
proof -
  have "collect (map (\<lambda>u. addAll_fetch e (request_of cfg u)) urls)
          = Inr (map (\<lambda>u. projr (addAll_fetch e (request_of cfg u))) urls)"
    using assms by (intro collect_all_Inr) (auto simp: addAll_fetch_ok)
  moreover have "map (\<lambda>u. projr (addAll_fetch e (request_of cfg u))) urls
                   = addAll_entries cfg e urls"
    using assms by (auto simp: addAll_entries_def addAll_fetch_ok)
  ultimately show ?thesis by (simp add: comp_def)
qed

lemma collect_write_ok:
  assumes "\<forall>u\<in>set urls. fetched_and_stored cfg e name u"
  shows "collect (map (addAll_write e name) (addAll_entries cfg e urls))
           = Inr (addAll_entries cfg e urls)"
proof -
  let ?g = "\<lambda>u. addAll_write e name
                    (location_origin cfg @ u, projr (net e (request_of cfg u)))"
  have "collect (map ?g urls) = Inr (map (\<lambda>u. projr (?g u)) urls)"
    using assms by (intro collect_all_Inr) (auto simp: addAll_write_ok)
  moreover have "map (\<lambda>u. projr (?g u)) urls = addAll_entries cfg e urls"
    using assms by (auto simp: addAll_entries_def addAll_write_ok)
  ultimately show ?thesis by (simp add: comp_def addAll_entries_def)
qed

lemma addAll_trace:
  "trace (snd (cache_addAll cfg e name urls w)) =
     trace w @ CacheAddAll name urls # map (\<lambda>u. NetFetch (location_origin cfg @ u)) urls"
  by (simp add: cache_addAll_def Let_def comp_def href_request_of split: sum.splits)

lemma addAll_success:
  assumes "\<forall>u\<in>set urls. fetched_and_stored cfg e name u"
  shows "fst (cache_addAll cfg e name urls w) = Inr ()"
    and "caches (snd (cache_addAll cfg e name urls w)) =
           AList.update name
             (fold (\<lambda>kr c. AList.update (fst kr) (snd kr) c) (addAll_entries cfg e urls)
                (the_cache (caches w) name))
             (caches w)"
  using collect_fetch_ok [OF assms] collect_write_ok [OF assms]
  by (simp_all add: cache_addAll_def Let_def)

lemma addAll_Inr_D:
  assumes "fst (cache_addAll cfg e name urls w) = Inr x" and "u \<in> set urls"
  shows "fetched_and_stored cfg e name u"
proof -
  obtain fetched
    where f: "collect (map (\<lambda>u. addAll_fetch e (request_of cfg u)) urls) = Inr fetched"
    using assms(1) by (auto simp: cache_addAll_def Let_def comp_def split: sum.splits)
  then obtain entries where w: "collect (map (addAll_write e name) fetched) = Inr entries"
    using assms(1) by (auto simp: cache_addAll_def Let_def comp_def split: sum.splits)
  from collect_Inr_D [OF f] assms(2)
  obtain v where v: "addAll_fetch e (request_of cfg u) = Inr v" and "v \<in> set fetched"
    by force
  with collect_Inr_D [OF w] obtain v' where "addAll_write e name v = Inr v'"
    by blast
  with v show ?thesis
    by (auto simp: fetched_and_stored_def addAll_fetch_def addAll_write_def href_request_of
        split: sum.splits option.splits if_splits)
qed

lemma addAll_Inl_caches:
  "fst (cache_addAll cfg e name urls w) = Inl err \<Longrightarrow>
   caches (snd (cache_addAll cfg e name urls w)) = caches w"
  by (auto simp: cache_addAll_def Let_def split: sum.splits)

lemma map_of_fold_update:
  "map_of (fold (\<lambda>kr c. AList.update (fst kr) (snd kr) c) es c) = map_of c ++ map_of (rev es)"
proof (induction es arbitrary: c)
  case Nil
  show ?case by simp
next
  case (Cons x es)
  let ?f = "\<lambda>kr c. AList.update (fst kr) (snd kr) c"
  have "map_of (fold ?f (x # es) c)
          = map_of (AList.update (fst x) (snd x) c) ++ map_of (rev es)"
    by (simp add: Cons.IH)
  also have "\<dots> = (map_of c ++ map_of [x]) ++ map_of (rev es)"
    by (simp only: update_conv' map_of.simps map_add_upd map_add_empty)
  also have "\<dots> = map_of c ++ map_of (rev (x # es))"
    by (simp only: rev.simps map_of_append map_add_assoc)
  finally show ?case .
qed

lemma fold_update_distinct:
  assumes "distinct (map fst es)" and "(k, r) \<in> set es"
  shows "map_of (fold (\<lambda>kr c. AList.update (fst kr) (snd kr) c) es c) k = Some r"
proof -
  have "map_of (rev es) k = Some r"
    using assms by (intro map_of_is_SomeI) (simp_all add: rev_map [symmetric])
  then show ?thesis
    by (simp add: map_of_fold_update)
qed

lemma distinct_precache: "distinct (PRECACHE_URLS cfg)"
  by (simp add: PRECACHE_URLS_def PRECACHE_FILES_def)

lemma distinct_entries:
  "distinct urls \<Longrightarrow> distinct (map fst (addAll_entries cfg e urls))"
  by (simp add: addAll_entries_def comp_def distinct_map inj_on_def)

lemma install_iff:
  "fst (on_install cfg e w) = Inr ()
     \<longleftrightarrow> (\<forall>u\<in>set (PRECACHE_URLS cfg). fetched_and_stored cfg e CACHE_NAME u)"
proof
  assume "fst (on_install cfg e w) = Inr ()"
  then have "\<exists>x. fst (cache_addAll cfg e CACHE_NAME (PRECACHE_URLS cfg)
                         (caches_open CACHE_NAME w)) = Inr x"
    by (auto simp: on_install_def Let_def split: prod.splits sum.splits)
  then show "\<forall>u\<in>set (PRECACHE_URLS cfg). fetched_and_stored cfg e CACHE_NAME u"
    using addAll_Inr_D by blast
next
  assume "\<forall>u\<in>set (PRECACHE_URLS cfg). fetched_and_stored cfg e CACHE_NAME u"
  from addAll_success(1) [OF this, of "caches_open CACHE_NAME w"]
  show "fst (on_install cfg e w) = Inr ()"
    by (auto simp: on_install_def Let_def split: prod.splits sum.splits)
qed

lemma install_trace:
  "trace (snd (on_install cfg e w)) =
     trace w @ CachesOpen CACHE_NAME # CacheAddAll CACHE_NAME (PRECACHE_URLS cfg)
       # map (\<lambda>u. NetFetch (location_origin cfg @ u)) (PRECACHE_URLS cfg)
       @ (if fst (on_install cfg e w) = Inr () then [SkipWaiting] else [])"
  using addAll_trace [of cfg e CACHE_NAME "PRECACHE_URLS cfg" "caches_open CACHE_NAME w"]
  by (auto simp: on_install_def Let_def skipWaiting_def trace_open
      split: prod.splits sum.splits)

lemma install_failed_caches:
  assumes "fst (on_install cfg e w) \<noteq> Inr ()"
  shows "caches (snd (on_install cfg e w)) = caches (caches_open CACHE_NAME w)"
  using assms
    addAll_Inl_caches [of cfg e CACHE_NAME "PRECACHE_URLS cfg" "caches_open CACHE_NAME w"]
  by (auto simp: on_install_def Let_def split: prod.splits sum.splits)

lemma install_stored:
  assumes ok: "fst (on_install cfg e w) = Inr ()" and u: "u \<in> set (PRECACHE_URLS cfg)"
  shows "\<exists>r. net e (request_of cfg u) = Inr r
           \<and> cached_in (snd (on_install cfg e w)) CACHE_NAME (location_origin cfg @ u)
               = Some r"
proof -
  have all: "\<forall>u\<in>set (PRECACHE_URLS cfg). fetched_and_stored cfg e CACHE_NAME u"
    using ok by (simp add: install_iff)
  with u obtain r where r: "net e (request_of cfg u) = Inr r"
    by (cases "net e (request_of cfg u)") (auto simp: fetched_and_stored_def)
  let ?es = "addAll_entries cfg e (PRECACHE_URLS cfg)"
  have "(location_origin cfg @ u, r) \<in> set ?es"
    using u r by (force simp: addAll_entries_def)
  then have "map_of (fold (\<lambda>kr c. AList.update (fst kr) (snd kr) c) ?es
                       (the_cache (caches (caches_open CACHE_NAME w)) CACHE_NAME))
               (location_origin cfg @ u) = Some r"
    by (intro fold_update_distinct distinct_entries distinct_precache)
  moreover have "caches (snd (on_install cfg e w)) =
      AList.update CACHE_NAME
        (fold (\<lambda>kr c. AList.update (fst kr) (snd kr) c) ?es
           (the_cache (caches (caches_open CACHE_NAME w)) CACHE_NAME))
        (caches (caches_open CACHE_NAME w))"
    using addAll_success [OF all, of "caches_open CACHE_NAME w"]
    by (auto simp: on_install_def Let_def skipWaiting_def split: prod.splits sum.splits)
  ultimately show ?thesis
    using r by (simp add: cached_in_def cache_match_def the_cache_update)
qed

lemma install_fetch_failed:
  assumes "u \<in> set (PRECACHE_URLS cfg)" and "net e (request_of cfg u) = Inl err"
  shows "\<exists>err'. fst (on_install cfg e w) = Inl err'"
proof -
  have "\<not> fetched_and_stored cfg e CACHE_NAME u"
    using assms(2) by (simp add: fetched_and_stored_def)
  with assms(1) have "fst (on_install cfg e w) \<noteq> Inr ()"
    by (auto simp: install_iff)
  then show ?thesis
    by (cases "fst (on_install cfg e w)") auto
qed

text \<open>
  C1. The install listener resolves exactly when every URL of the precache manifest is
  fetched and stored: the network answers its GET request with a status that \<open>addAll\<close>
  accepts, and the storage takes the write. A single rejected manifest fetch makes the
  promise handed to \<open>waitUntil\<close> reject. \<open>skipWaiting\<close> is called exactly on success, as
  the last call. On success every manifest URL is in the current cache with the response
  fetched for it; on failure the promise rejects and nothing of the batch is stored: the
  cache storage is as \<open>caches.open\<close> left it.
\<close>

theorem install_all_or_nothing:
  "(fst (on_install cfg e w) = Inr ()
      \<longleftrightarrow> (\<forall>u\<in>set (PRECACHE_URLS cfg). fetched_and_stored cfg e CACHE_NAME u))
   \<and> (\<forall>u\<in>set (PRECACHE_URLS cfg). \<forall>err.
         net e (request_of cfg u) = Inl err \<longrightarrow> (\<exists>err'. fst (on_install cfg e w) = Inl err'))
   \<and> trace (snd (on_install cfg e w)) =
       trace w @ CachesOpen CACHE_NAME # CacheAddAll CACHE_NAME (PRECACHE_URLS cfg)
         # map (\<lambda>u. NetFetch (location_origin cfg @ u)) (PRECACHE_URLS cfg)
         @ (if fst (on_install cfg e w) = Inr () then [SkipWaiting] else [])
   \<and> (fst (on_install cfg e w) = Inr () \<longrightarrow>
        (\<forall>u\<in>set (PRECACHE_URLS cfg). \<exists>r.
           net e (request_of cfg u) = Inr r
           \<and> cached_in (snd (on_install cfg e w)) CACHE_NAME (location_origin cfg @ u) = Some r))
   \<and> (fst (on_install cfg e w) \<noteq> Inr () \<longrightarrow>
        (\<exists>err. fst (on_install cfg e w) = Inl err)
        \<and> caches (snd (on_install cfg e w)) = caches (caches_open CACHE_NAME w))"
proof (intro conjI)
  show "fst (on_install cfg e w) = Inr ()
      \<longleftrightarrow> (\<forall>u\<in>set (PRECACHE_URLS cfg). fetched_and_stored cfg e CACHE_NAME u)"
    by (rule install_iff)
  show "\<forall>u\<in>set (PRECACHE_URLS cfg). \<forall>err.
         net e (request_of cfg u) = Inl err \<longrightarrow> (\<exists>err'. fst (on_install cfg e w) = Inl err')"
    using install_fetch_failed by blast
  show "trace (snd (on_install cfg e w)) =
       trace w @ CachesOpen CACHE_NAME # CacheAddAll CACHE_NAME (PRECACHE_URLS cfg)
         # map (\<lambda>u. NetFetch (location_origin cfg @ u)) (PRECACHE_URLS cfg)
         @ (if fst (on_install cfg e w) = Inr () then [SkipWaiting] else [])"
    by (rule install_trace)
  show "fst (on_install cfg e w) = Inr () \<longrightarrow>
        (\<forall>u\<in>set (PRECACHE_URLS cfg). \<exists>r.
           net e (request_of cfg u) = Inr r
           \<and> cached_in (snd (on_install cfg e w)) CACHE_NAME (location_origin cfg @ u) = Some r)"
    using install_stored by blast
  show "fst (on_install cfg e w) \<noteq> Inr () \<longrightarrow>
        (\<exists>err. fst (on_install cfg e w) = Inl err)
        \<and> caches (snd (on_install cfg e w)) = caches (caches_open CACHE_NAME w)"
    using install_failed_caches [of cfg e w]
    by (cases "fst (on_install cfg e w)") auto
qed

theorem install_all_or_nothing_witness:
  "fst (on_install cfg_pages (env_serving page_200) w_empty) = Inr ()
   \<and> trace (snd (on_install cfg_pages (env_serving page_200) w_empty)) =
       [CachesOpen CACHE_NAME,
        CacheAddAll CACHE_NAME
          [''/WebTools/'', ''/WebTools/index.html'', ''/WebTools/manifest.webmanifest'',
           ''/WebTools/gif.worker.js''],
        NetFetch ''https://oedosoldier.github.io/WebTools/'',
        NetFetch ''https://oedosoldier.github.io/WebTools/index.html'',
        NetFetch ''https://oedosoldier.github.io/WebTools/manifest.webmanifest'',
        NetFetch ''https://oedosoldier.github.io/WebTools/gif.worker.js'',
        SkipWaiting]
   \<and> cached_in (snd (on_install cfg_pages (env_serving page_200) w_empty)) CACHE_NAME
        ''https://oedosoldier.github.io/WebTools/index.html'' = Some page_200
   \<and> fst (on_install cfg_pages env_offline w_empty) \<noteq> Inr ()
   \<and> trace (snd (on_install cfg_pages env_offline w_empty)) =
       [CachesOpen CACHE_NAME,
        CacheAddAll CACHE_NAME
          [''/WebTools/'', ''/WebTools/index.html'', ''/WebTools/manifest.webmanifest'',
           ''/WebTools/gif.worker.js''],
        NetFetch ''https://oedosoldier.github.io/WebTools/'',
        NetFetch ''https://oedosoldier.github.io/WebTools/index.html'',
        NetFetch ''https://oedosoldier.github.io/WebTools/manifest.webmanifest'',
        NetFetch ''https://oedosoldier.github.io/WebTools/gif.worker.js'']
   \<and> caches (snd (on_install cfg_pages env_offline w_empty)) = [(CACHE_NAME, [])]"
proof -
  let ?on = "on_install cfg_pages (env_serving page_200) w_empty"
  let ?off = "on_install cfg_pages env_offline w_empty"
  have urls: "PRECACHE_URLS cfg_pages =
      [''/WebTools/'', ''/WebTools/index.html'', ''/WebTools/manifest.webmanifest'',
       ''/WebTools/gif.worker.js'']"
    by (simp add: PRECACHE_URLS_def PRECACHE_FILES_def BASE_def ends_with_def cfg_pages_def)
  have origin: "location_origin cfg_pages = ''https://oedosoldier.github.io''"
    by (simp add: cfg_pages_def)
  have served: "\<forall>u\<in>set (PRECACHE_URLS cfg_pages).
      fetched_and_stored cfg_pages (env_serving page_200) CACHE_NAME u"
    by (simp add: fetched_and_stored_def env_serving_def page_200_def ok_status_def)
  have refused: "\<not> (\<forall>u\<in>set (PRECACHE_URLS cfg_pages).
      fetched_and_stored cfg_pages env_offline CACHE_NAME u)"
    by (auto simp: fetched_and_stored_def env_offline_def urls)
  have index: "''/WebTools/index.html'' \<in> set (PRECACHE_URLS cfg_pages)"
    by (simp add: urls)
  have net: "net (env_serving page_200) (request_of cfg_pages ''/WebTools/index.html'')
      = Inr page_200"
    by (simp add: env_serving_def)
  note on = install_all_or_nothing [of cfg_pages "env_serving page_200" w_empty]
  note off = install_all_or_nothing [of cfg_pages env_offline w_empty]
  have 1: "fst ?on = Inr ()"
    using on served by blast
  have 2: "fst ?off \<noteq> Inr ()"
    using off refused by blast
  have 3: "trace (snd ?on) =
       [CachesOpen CACHE_NAME,
        CacheAddAll CACHE_NAME
          [''/WebTools/'', ''/WebTools/index.html'', ''/WebTools/manifest.webmanifest'',
           ''/WebTools/gif.worker.js''],
        NetFetch ''https://oedosoldier.github.io/WebTools/'',
        NetFetch ''https://oedosoldier.github.io/WebTools/index.html'',
        NetFetch ''https://oedosoldier.github.io/WebTools/manifest.webmanifest'',
        NetFetch ''https://oedosoldier.github.io/WebTools/gif.worker.js'',
        SkipWaiting]"
    using conjunct1 [OF conjunct2 [OF conjunct2 [OF on]]] 1
    by (simp add: urls origin w_empty_def)
  have 4: "trace (snd ?off) =
       [CachesOpen CACHE_NAME,
        CacheAddAll CACHE_NAME
          [''/WebTools/'', ''/WebTools/index.html'', ''/WebTools/manifest.webmanifest'',
           ''/WebTools/gif.worker.js''],
        NetFetch ''https://oedosoldier.github.io/WebTools/'',
        NetFetch ''https://oedosoldier.github.io/WebTools/index.html'',
        NetFetch ''https://oedosoldier.github.io/WebTools/manifest.webmanifest'',
        NetFetch ''https://oedosoldier.github.io/WebTools/gif.worker.js'']"
    using conjunct1 [OF conjunct2 [OF conjunct2 [OF off]]] 2
    by (simp add: urls origin w_empty_def)
  have "\<exists>r. net (env_serving page_200) (request_of cfg_pages ''/WebTools/index.html'') = Inr r
          \<and> cached_in (snd ?on) CACHE_NAME
               (location_origin cfg_pages @ ''/WebTools/index.html'') = Some r"
    using on 1 index by blast
  then have 5: "cached_in (snd ?on) CACHE_NAME
      ''https://oedosoldier.github.io/WebTools/index.html'' = Some page_200"
    by (simp add: net origin)
  have "caches (snd ?off) = caches (caches_open CACHE_NAME w_empty)"
    using off 2 by blast
  then have 6: "caches (snd ?off) = [(CACHE_NAME, [])]"
    by (simp add: caches_open_def w_empty_def)
  from 1 2 3 4 5 6 show ?thesis
    by (simp only: simp_thms)
qed

section \<open>The activate listener\<close>

lemma caches_delete_caches:
  "caches (snd (caches_delete k w)) = filter (\<lambda>nc. fst nc \<noteq> k) (caches w)"
  by (auto simp: caches_delete_def AList.delete_eq intro: filter_cong)

lemma caches_delete_trace: "trace (snd (caches_delete k w)) = trace w @ [CachesDelete k]"
  by (simp add: caches_delete_def)

lemma caches_fold_delete:
  "caches (fold (\<lambda>key v. snd (caches_delete key v)) ks w) =
     filter (\<lambda>nc. fst nc \<notin> set ks) (caches w)"
proof (induction ks arbitrary: w)
  case Nil
  show ?case by simp
next
  case (Cons k ks)
  have "caches (fold (\<lambda>key v. snd (caches_delete key v)) (k # ks) w)
          = filter (\<lambda>nc. fst nc \<notin> set ks) (filter (\<lambda>nc. fst nc \<noteq> k) (caches w))"
    by (simp add: Cons.IH caches_delete_caches)
  also have "\<dots> = filter (\<lambda>nc. fst nc \<notin> set (k # ks)) (caches w)"
    by (auto intro: filter_cong)
  finally show ?case .
qed

lemma trace_fold_delete:
  "trace (fold (\<lambda>key v. snd (caches_delete key v)) ks w) = trace w @ map CachesDelete ks"
  by (induction ks arbitrary: w) (simp_all add: caches_delete_trace)

lemma activate_caches:
  "caches (on_activate w) = filter (\<lambda>nc. \<not> stale (fst nc)) (caches w)"
proof -
  have "caches (on_activate w) =
          filter (\<lambda>nc. fst nc \<notin> set (filter stale (map fst (caches w)))) (caches w)"
    by (simp add: on_activate_def caches_keys_def clients_claim_def Let_def caches_fold_delete)
  also have "\<dots> = filter (\<lambda>nc. \<not> stale (fst nc)) (caches w)"
    by (rule filter_cong) auto
  finally show ?thesis .
qed

lemma activate_trace:
  "trace (on_activate w) =
     trace w @ CachesKeys # map CachesDelete (filter stale (fst (caches_keys w)))
       @ [ClientsClaim]"
  by (simp add: on_activate_def caches_keys_def clients_claim_def Let_def trace_fold_delete)

lemma app_cache_name_current: "app_cache_name CACHE_NAME"
  by (simp add: app_cache_name_def CACHE_NAME_def)

lemma activate_names:
  "filter app_cache_name (fst (caches_keys (on_activate w)))
     = filter (\<lambda>key. key = CACHE_NAME) (fst (caches_keys w))"
proof -
  have "filter app_cache_name (map fst (filter (\<lambda>nc. \<not> stale (fst nc)) (caches w)))
          = map fst (filter (\<lambda>nc. app_cache_name (fst nc) \<and> \<not> stale (fst nc)) (caches w))"
    by (simp add: filter_map comp_def conj_commute)
  also have "\<dots> = map fst (filter (\<lambda>nc. fst nc = CACHE_NAME) (caches w))"
    using app_cache_name_current
    by (intro arg_cong [where f = "map fst"] filter_cong) (auto simp: stale_def)
  also have "\<dots> = filter (\<lambda>key. key = CACHE_NAME) (map fst (caches w))"
    by (simp add: filter_map comp_def)
  finally show ?thesis
    by (simp add: caches_keys_def activate_caches)
qed

lemma filter_eq_single:
  "distinct xs \<Longrightarrow> c \<in> set xs \<Longrightarrow> filter (\<lambda>x. x = c) xs = [c]"
  by (induction xs) (auto simp: filter_empty_conv)

lemma open_names:
  "fst (caches_keys (caches_open n w)) =
     (if n \<in> set (fst (caches_keys w)) then fst (caches_keys w) else fst (caches_keys w) @ [n])"
  by (simp add: caches_keys_def caches_open_def)

lemma install_names:
  "fst (caches_keys (snd (on_install cfg e w))) = fst (caches_keys (caches_open CACHE_NAME w))"
proof (cases "fst (on_install cfg e w) = Inr ()")
  case False
  then show ?thesis
    by (simp add: install_failed_caches caches_keys_def)
next
  case True
  then have all: "\<forall>u\<in>set (PRECACHE_URLS cfg). fetched_and_stored cfg e CACHE_NAME u"
    by (simp add: install_iff)
  have mem: "CACHE_NAME \<in> fst ` set (caches (caches_open CACHE_NAME w))"
    by (simp add: caches_open_def)
  define c where "c = fold (\<lambda>kr c. AList.update (fst kr) (snd kr) c)
      (addAll_entries cfg e (PRECACHE_URLS cfg))
      (the_cache (caches (caches_open CACHE_NAME w)) CACHE_NAME)"
  have c: "caches (snd (on_install cfg e w)) =
      AList.update CACHE_NAME c (caches (caches_open CACHE_NAME w))"
    unfolding c_def
    using addAll_success [OF all, of "caches_open CACHE_NAME w"]
    by (auto simp: on_install_def Let_def skipWaiting_def split: prod.splits sum.splits)
  have "map fst (AList.update CACHE_NAME c (caches (caches_open CACHE_NAME w)))
          = map fst (caches (caches_open CACHE_NAME w))"
    using mem by (simp add: update_keys)
  with c show ?thesis
    by (simp add: caches_keys_def)
qed

lemma activate_after_install:
  assumes "distinct (fst (caches_keys w))"
  shows "filter app_cache_name (fst (caches_keys (on_activate (snd (on_install cfg e w)))))
           = [CACHE_NAME]"
proof -
  have "distinct (fst (caches_keys (snd (on_install cfg e w))))"
    and "CACHE_NAME \<in> set (fst (caches_keys (snd (on_install cfg e w))))"
    using assms by (simp_all add: install_names open_names)
  then show ?thesis
    by (simp add: activate_names filter_eq_single)
qed

text \<open>
  C2, as stated: after activation the enumeration of the cache names holds exactly one
  name of the application's pattern, the current one. On a storage that holds a stale
  cache and no current one, activation deletes the stale cache and creates nothing: no
  name is left, and none matches.
\<close>

theorem activate_exactly_one_counterexample:
  "fst (caches_keys w_stale_only) = [''webtools-cache-v1.0.1'']
   \<and> fst (caches_keys (on_activate w_stale_only)) = []
   \<and> filter app_cache_name (fst (caches_keys (on_activate w_stale_only))) \<noteq> [CACHE_NAME]"
  by (simp add: w_stale_only_def on_activate_def caches_keys_def clients_claim_def stale_def
      app_cache_name_def caches_delete_def CACHE_NAME_def VERSION_def Let_def)

text \<open>
  C2, amended. The activate listener deletes every cache whose name starts with
  \<open>webtools-cache-\<close> and differs from the current name, keeps every other cache as it
  is, and then calls \<open>clients.claim\<close>. Among the names enumerated afterwards, those of the
  application's pattern are the occurrences of the current name that were there before.
  So exactly one name matches, the current one, when the current cache exists at
  activation, as it does on the storage that an install leaves behind.
\<close>

theorem activate_sweeps_stale:
  "caches (on_activate w) = filter (\<lambda>nc. \<not> stale (fst nc)) (caches w)
   \<and> trace (on_activate w) =
       trace w @ CachesKeys # map CachesDelete (filter stale (fst (caches_keys w)))
         @ [ClientsClaim]
   \<and> filter app_cache_name (fst (caches_keys (on_activate w)))
       = filter (\<lambda>key. key = CACHE_NAME) (fst (caches_keys w))
   \<and> (distinct (fst (caches_keys w)) \<and> CACHE_NAME \<in> set (fst (caches_keys w)) \<longrightarrow>
        filter app_cache_name (fst (caches_keys (on_activate w))) = [CACHE_NAME])
   \<and> (distinct (fst (caches_keys w)) \<longrightarrow>
        filter app_cache_name (fst (caches_keys (on_activate (snd (on_install cfg e w)))))
          = [CACHE_NAME])"
proof (intro conjI impI)
  show "caches (on_activate w) = filter (\<lambda>nc. \<not> stale (fst nc)) (caches w)"
    by (rule activate_caches)
  show "trace (on_activate w) =
       trace w @ CachesKeys # map CachesDelete (filter stale (fst (caches_keys w)))
         @ [ClientsClaim]"
    by (rule activate_trace)
  show "filter app_cache_name (fst (caches_keys (on_activate w)))
       = filter (\<lambda>key. key = CACHE_NAME) (fst (caches_keys w))"
    by (rule activate_names)
  show "filter app_cache_name (fst (caches_keys (on_activate w))) = [CACHE_NAME]"
    if "distinct (fst (caches_keys w)) \<and> CACHE_NAME \<in> set (fst (caches_keys w))"
    using that by (simp add: activate_names filter_eq_single)
  show "filter app_cache_name (fst (caches_keys (on_activate (snd (on_install cfg e w)))))
          = [CACHE_NAME]"
    if "distinct (fst (caches_keys w))"
    using that by (rule activate_after_install)
qed

theorem activate_sweeps_stale_witness:
  "distinct (fst (caches_keys w_versions))
   \<and> CACHE_NAME \<in> set (fst (caches_keys w_versions))
   \<and> fst (caches_keys (on_activate w_versions)) = [''other-app-v3'', CACHE_NAME]
   \<and> filter app_cache_name (fst (caches_keys (on_activate w_versions))) = [CACHE_NAME]
   \<and> trace (on_activate w_versions) =
       [CachesKeys, CachesDelete ''webtools-cache-v1.0.1'',
        CachesDelete ''webtools-cache-v0.9'', ClientsClaim]"
proof -
  have names: "fst (caches_keys w_versions) =
      [''webtools-cache-v1.0.1'', ''other-app-v3'', CACHE_NAME, ''webtools-cache-v0.9'']"
    by (simp add: caches_keys_def w_versions_def)
  have stale: "stale ''webtools-cache-v1.0.1''" "\<not> stale ''other-app-v3''"
    "\<not> stale CACHE_NAME" "stale ''webtools-cache-v0.9''"
    by (simp_all add: stale_def app_cache_name_def CACHE_NAME_def VERSION_def)
  have d: "distinct (fst (caches_keys w_versions))"
    by (simp add: names CACHE_NAME_def VERSION_def)
  have m: "CACHE_NAME \<in> set (fst (caches_keys w_versions))"
    by (simp add: names)
  note a = activate_sweeps_stale [of w_versions cfg_pages env_offline]
  have 1: "filter app_cache_name (fst (caches_keys (on_activate w_versions))) = [CACHE_NAME]"
    using a d m by blast
  have "caches (on_activate w_versions) = [(''other-app-v3'', []), (CACHE_NAME, [])]"
    using conjunct1 [OF a] by (simp add: w_versions_def stale)
  then have 2: "fst (caches_keys (on_activate w_versions)) = [''other-app-v3'', CACHE_NAME]"
    by (simp add: caches_keys_def)
  have 3: "trace (on_activate w_versions) =
       [CachesKeys, CachesDelete ''webtools-cache-v1.0.1'',
        CachesDelete ''webtools-cache-v0.9'', ClientsClaim]"
    using conjunct1 [OF conjunct2 [OF a]] by (simp add: names stale) (simp add: w_versions_def)
  from d m 1 2 3 show ?thesis by (simp only: simp_thms)
qed

section \<open>Runtime caching of the CDN resources\<close>

lemma cacheFirst_then_cached:
  assumes "net e req = Inr r" and "status r = 200 \<or> rtype r = Opaque"
    and "put_error e n (href (req_url req)) r = None"
  shows "\<exists>c. fst (cacheFirst e req n w) = Inr c
             \<and> cached_in (snd (cacheFirst e req n w)) n (href (req_url req)) = Some c
             \<and> (cached_in w n (href (req_url req)) = None \<longrightarrow> c = r)"
proof (cases "cached_in w n (href (req_url req))")
  case None
  with assms show ?thesis
    by (simp add: cacheFirst_fetched)
next
  case (Some c)
  then show ?thesis
    by (simp add: cacheFirst_cached cached_in_trace)
qed

lemma cdn_req_matches: "matches_cdn (href (req_url cdn_req))"
  by (simp add: matches_cdn_def cdn_req_def href_def RUNTIME_CDN_PATTERNS_def re_test_def
        lower_def)

text \<open>
  C9, as stated: after one handling of a GET request that matches a runtime pattern, in
  which the network fetch succeeds, a second identical request is served from the cache
  without a new network fetch. When the CDN answers 404 the response is returned but
  not stored: the second handling looks the key up, misses and fetches again.
\<close>

theorem runtime_second_request_counterexample:
  "req_method cdn_req = ''GET''
   \<and> matches_cdn (href (req_url cdn_req))
   \<and> net (env_serving not_found) cdn_req = Inr not_found
   \<and> fst (on_fetch cfg_pages (env_serving not_found) cdn_req w_empty)
       = RespondWith (Inr not_found)
   \<and> trace (snd (on_fetch cfg_pages (env_serving not_found) cdn_req
              ((snd (on_fetch cfg_pages (env_serving not_found) cdn_req w_empty))
                 \<lparr>trace := []\<rparr>)))
       = [CachesOpen CACHE_NAME, CacheMatch CACHE_NAME (href (req_url cdn_req)),
          NetFetch (href (req_url cdn_req))]"
proof -
  let ?e = "env_serving not_found"
  let ?key = "href (req_url cdn_req)"
  let ?first = "cacheFirst ?e cdn_req CACHE_NAME w_empty"
  let ?w1 = "(snd ?first)\<lparr>trace := []\<rparr>"
  have get: "req_method cdn_req = ''GET''" and nav: "req_mode cdn_req \<noteq> ''navigate''"
    by (simp_all add: cdn_req_def)
  have route: "on_fetch cfg_pages ?e cdn_req w =
      (RespondWith (fst (cacheFirst ?e cdn_req CACHE_NAME w)),
       snd (cacheFirst ?e cdn_req CACHE_NAME w))" for w
    using get nav cdn_req_matches by (rule on_fetch_cdn)
  have net: "net ?e cdn_req = Inr not_found"
    by (simp add: env_serving_def)
  have miss: "cached_in w_empty CACHE_NAME ?key = None"
    by (simp add: w_empty_def cached_in_simps)
  have 1: "fst ?first = Inr not_found"
    using cacheFirst_fetched(1) [OF miss net] .
  have "cached_in (snd ?first) CACHE_NAME ?key = None"
    using cacheFirst_fetched(3) [OF miss net] by (simp add: not_found_def)
  then have miss': "cached_in ?w1 CACHE_NAME ?key = None"
    by (simp add: cached_in_trace)
  have 2: "trace (snd (cacheFirst ?e cdn_req CACHE_NAME ?w1)) =
      [CachesOpen CACHE_NAME, CacheMatch CACHE_NAME ?key, NetFetch ?key]"
    using cacheFirst_fetched(2) [OF miss' net] by (simp add: not_found_def)
  from get cdn_req_matches net 1 2 show ?thesis
    by (simp only: route fst_conv snd_conv simp_thms)
qed

text \<open>
  C9, amended. Take a GET request that is not a navigation and whose URL matches a
  runtime pattern, and a handling of it in which the network answers with status 200 or
  with an opaque response and the storage accepts the write. Then a second identical
  request is answered with the response the first handling returned (the network's,
  when the first lookup missed), whatever the network does by then, and the only calls
  of the second handling are the opening of the cache and the lookup: no network fetch.
\<close>

theorem runtime_second_request_hit:
  assumes "req_method req = ''GET''" and "req_mode req \<noteq> ''navigate''"
    and "matches_cdn (href (req_url req))"
    and "net e req = Inr r" and "status r = 200 \<or> rtype r = Opaque"
    and "put_error e CACHE_NAME (href (req_url req)) r = None"
  shows "\<exists>c. fst (on_fetch cfg e req w) = RespondWith (Inr c)
           \<and> (cached_in w CACHE_NAME (href (req_url req)) = None \<longrightarrow> c = r)
           \<and> on_fetch cfg e' req (snd (on_fetch cfg e req w)) =
               (RespondWith (Inr c),
                (snd (on_fetch cfg e req w))
                  \<lparr>trace := trace (snd (on_fetch cfg e req w))
                     @ [CachesOpen CACHE_NAME, CacheMatch CACHE_NAME (href (req_url req))]\<rparr>)"
proof -
  note route = on_fetch_cdn [OF assms(1-3)]
  from cacheFirst_then_cached [OF assms(4-6), of w]
  obtain c where c1: "fst (cacheFirst e req CACHE_NAME w) = Inr c"
    and c2: "cached_in (snd (cacheFirst e req CACHE_NAME w)) CACHE_NAME (href (req_url req))
               = Some c"
    and c3: "cached_in w CACHE_NAME (href (req_url req)) = None \<longrightarrow> c = r"
    by (elim exE conjE)
  have second: "cacheFirst e' req CACHE_NAME (snd (cacheFirst e req CACHE_NAME w)) =
      (Inr c, (snd (cacheFirst e req CACHE_NAME w))
                \<lparr>trace := trace (snd (cacheFirst e req CACHE_NAME w))
                   @ [CachesOpen CACHE_NAME, CacheMatch CACHE_NAME (href (req_url req))]\<rparr>)"
    using c2 by (rule cacheFirst_cached)
  have first: "fst (on_fetch cfg e req w) = RespondWith (Inr c)"
    by (simp only: route fst_conv c1)
  have again: "on_fetch cfg e' req (snd (on_fetch cfg e req w)) =
               (RespondWith (Inr c),
                (snd (on_fetch cfg e req w))
                  \<lparr>trace := trace (snd (on_fetch cfg e req w))
                     @ [CachesOpen CACHE_NAME, CacheMatch CACHE_NAME (href (req_url req))]\<rparr>)"
    by (simp only: route fst_conv snd_conv second)
  show ?thesis
  proof (intro exI conjI)
    show "fst (on_fetch cfg e req w) = RespondWith (Inr c)"
      by (fact first)
    show "cached_in w CACHE_NAME (href (req_url req)) = None \<longrightarrow> c = r"
      by (fact c3)
    show "on_fetch cfg e' req (snd (on_fetch cfg e req w)) =
               (RespondWith (Inr c),
                (snd (on_fetch cfg e req w))
                  \<lparr>trace := trace (snd (on_fetch cfg e req w))
                     @ [CachesOpen CACHE_NAME, CacheMatch CACHE_NAME (href (req_url req))]\<rparr>)"
      by (fact again)
  qed
qed

theorem runtime_second_request_hit_witness:
  "req_method cdn_req = ''GET'' \<and> req_mode cdn_req \<noteq> ''navigate''
   \<and> matches_cdn (href (req_url cdn_req))
   \<and> net (env_serving asset_200) cdn_req = Inr asset_200
   \<and> status asset_200 = 200
   \<and> put_error (env_serving asset_200) CACHE_NAME (href (req_url cdn_req)) asset_200 = None
   \<and> fst (on_fetch cfg_pages (env_serving asset_200) cdn_req w_empty)
       = RespondWith (Inr asset_200)
   \<and> on_fetch cfg_pages env_offline cdn_req
        (snd (on_fetch cfg_pages (env_serving asset_200) cdn_req w_empty)) =
       (RespondWith (Inr asset_200),
        (snd (on_fetch cfg_pages (env_serving asset_200) cdn_req w_empty))
          \<lparr>trace := trace (snd (on_fetch cfg_pages (env_serving asset_200) cdn_req w_empty))
             @ [CachesOpen CACHE_NAME, CacheMatch CACHE_NAME (href (req_url cdn_req))]\<rparr>)"
proof -
  have h: "req_method cdn_req = ''GET''" "req_mode cdn_req \<noteq> ''navigate''"
    "net (env_serving asset_200) cdn_req = Inr asset_200"
    "status asset_200 = 200 \<or> rtype asset_200 = Opaque"
    "put_error (env_serving asset_200) CACHE_NAME (href (req_url cdn_req)) asset_200 = None"
    by (simp_all add: cdn_req_def env_serving_def asset_200_def)
  have miss: "cached_in w_empty CACHE_NAME (href (req_url cdn_req)) = None"
    by (simp add: w_empty_def cached_in_simps)
  from runtime_second_request_hit
         [OF h(1,2) cdn_req_matches h(3,4,5), of cfg_pages w_empty env_offline]
  obtain c where c1: "fst (on_fetch cfg_pages (env_serving asset_200) cdn_req w_empty)
        = RespondWith (Inr c)"
    and c2: "cached_in w_empty CACHE_NAME (href (req_url cdn_req)) = None \<longrightarrow> c = asset_200"
    and c3: "on_fetch cfg_pages env_offline cdn_req
        (snd (on_fetch cfg_pages (env_serving asset_200) cdn_req w_empty)) =
       (RespondWith (Inr c),
        (snd (on_fetch cfg_pages (env_serving asset_200) cdn_req w_empty))
          \<lparr>trace := trace (snd (on_fetch cfg_pages (env_serving asset_200) cdn_req w_empty))
             @ [CachesOpen CACHE_NAME, CacheMatch CACHE_NAME (href (req_url cdn_req))]\<rparr>)"
    by (elim exE conjE)
  have c: "c = asset_200"
    using c2 miss by (simp only: simp_thms)
  have s: "status asset_200 = 200"
    by (simp add: asset_200_def)
  from h(1,2) cdn_req_matches h(3) s h(5) c1 [unfolded c] c3 [unfolded c] show ?thesis
    by (simp only: simp_thms)
qed

end
